theory Spec2Isabelle
  imports Complex_Main
begin

section \<open>The 2048 rules engine of \<open>Game2048\<close>\<close>

text \<open>
  A shallow embedding of the game logic of the component \<open>Game2048\<close>: the pure helpers
  (\<open>arraysEqual\<close>, \<open>addRandomTile\<close>, \<open>moveLine\<close>, \<open>moveBoard\<close>, \<open>isGameWon\<close>,
  \<open>isGameOver\<close>) and the event handlers of the component (\<open>processMove\<close>,
  \<open>startNewGame\<close>, \<open>handleUndo\<close>, \<open>handleTileClick\<close>), which become functions from
  the component state to the next component state.
\<close>

subsection \<open>Data model\<close>

text \<open>
  A cell is \<open>number | null\<close>: \<open>None\<close> is \<open>null\<close>. Tile values and scores only ever
  arise from the literals 2 and 4 by doubling and adding, so they are natural numbers;
  the three powerup counters are decremented by the handlers and are integers.
\<close>

type_synonym Cell = "nat option"
type_synonym GameBoard = "Cell list list"

datatype Direction = Up | Down | Left | Right

datatype PowerupMode = ModeNone | ModeSwap | ModeDelete

definition GRID_SIZE :: nat where
  "GRID_SIZE = 4"

definition WINNING_NUMBER :: nat where
  "WINNING_NUMBER = 2048"

definition UNDO_UNLOCK_THRESHOLD :: nat where
  "UNDO_UNLOCK_THRESHOLD = 128"

definition SWAP_UNLOCK_THRESHOLD :: nat where
  "SWAP_UNLOCK_THRESHOLD = 256"

definition DELETE_UNLOCK_THRESHOLD :: nat where
  "DELETE_UNLOCK_THRESHOLD = 512"

definition MAX_UNDO_COUNT :: int where
  "MAX_UNDO_COUNT = 3"

definition MAX_SWAP_COUNT :: int where
  "MAX_SWAP_COUNT = 2"

definition MAX_DELETE_COUNT :: int where
  "MAX_DELETE_COUNT = 1"

text \<open>
  The type \<open>GameBoard\<close> of the source is always a 4 by 4 matrix: \<open>initializeBoard\<close> builds
  one and every function returns one when given one. Outside that shape the JavaScript
  reads \<open>undefined\<close> or throws, so the theorems about boards assume it.
\<close>

definition valid_board :: "GameBoard \<Rightarrow> bool" where
  "valid_board board \<longleftrightarrow>
     length board = GRID_SIZE \<and> list_all (\<lambda>row. length row = GRID_SIZE) board"

text \<open>JavaScript truthiness of a cell (\<open>!board[row][col]\<close>): \<open>null\<close> and \<open>0\<close> are falsy.\<close>

definition truthy :: "Cell \<Rightarrow> bool" where
  "truthy cell = (case cell of None \<Rightarrow> False | Some v \<Rightarrow> v \<noteq> 0)"

subsection \<open>Pure helpers\<close>

definition arraysEqual :: "Cell list \<Rightarrow> Cell list \<Rightarrow> bool" where
  "arraysEqual arr1 arr2 \<longleftrightarrow>
     length arr1 = length arr2 \<and> list_all (\<lambda>idx. arr1 ! idx = arr2 ! idx) [0..<length arr1]"


text \<open>
  \<open>addRandomTile\<close> evaluates two random expressions, and the model takes the value of
  each as a parameter. \<open>idx\<close> is the value of
  \<open>Math.floor(Math.random() * emptyCells.length)\<close>, a natural number: the product is a
  floating-point product, and the model does not say which index a draw gives. The draw
  is below 1, so the expression is an index of \<open>emptyCells\<close>, and the statements about
  the spawned tile assume \<open>idx < length (emptyCells board)\<close>. \<open>r2\<close> is the second
  \<open>Math.random()\<close>, compared with 0.9; no double lies between 9/10 and the double
  written \<open>0.9\<close>, so the comparison with 9/10 decides as the code does. The locals
  \<open>randomCell\<close> and \<open>randomValue\<close> are definitions of their own, so that statements can
  speak of them.
\<close>

definition emptyCells :: "GameBoard \<Rightarrow> (nat \<times> nat) list" where
  "emptyCells board =
     concat (map (\<lambda>row. concat (map (\<lambda>col. if board ! row ! col = None then [(row, col)] else [])
                                   [0..<GRID_SIZE]))
                 [0..<GRID_SIZE])"

definition randomCell :: "GameBoard \<Rightarrow> nat \<Rightarrow> nat \<times> nat" where
  "randomCell board idx = emptyCells board ! idx"

definition randomValue :: "real \<Rightarrow> nat" where
  "randomValue r2 = (if r2 < 9 / 10 then 2 else 4)"

definition addRandomTile :: "GameBoard \<Rightarrow> nat \<Rightarrow> real \<Rightarrow> GameBoard" where
  "addRandomTile board idx r2 =
     (if length (emptyCells board) = 0 then board
      else
        let newBoard = board;
            (row, col) = randomCell board idx
        in newBoard[row := (newBoard ! row)[col := Some (randomValue r2)]])"

text \<open>
  The first loop of \<open>moveLine\<close>, over the index \<open>i\<close> into \<open>filteredLine\<close>, with the
  accumulators \<open>newLine\<close> and \<open>score\<close>.
\<close>

function moveLine_loop :: "nat list \<Rightarrow> nat \<Rightarrow> Cell list \<Rightarrow> nat \<Rightarrow> Cell list \<times> nat" where
  "moveLine_loop filteredLine i newLine score =
     (if i < length filteredLine then
        (if i < length filteredLine - 1 \<and> filteredLine ! i = filteredLine ! (i + 1) then
           (let mergedValue = filteredLine ! i * 2
            in moveLine_loop filteredLine (i + 2) (newLine @ [Some mergedValue]) (score + mergedValue))
         else moveLine_loop filteredLine (i + 1) (newLine @ [Some (filteredLine ! i)]) score)
      else (newLine, score))"
  by pat_completeness auto
termination
  by (relation "measure (\<lambda>(filteredLine, i, newLine, score). length filteredLine - i)") auto

text \<open>The second loop: \<open>while (newLine.length < GRID_SIZE) newLine.push(null)\<close>.\<close>

function fill_nulls :: "Cell list \<Rightarrow> Cell list" where
  "fill_nulls newLine =
     (if length newLine < GRID_SIZE then fill_nulls (newLine @ [None]) else newLine)"
  by pat_completeness auto
termination
  by (relation "measure (\<lambda>newLine. GRID_SIZE - length newLine)") auto

definition moveLine :: "Cell list \<Rightarrow> Cell list \<times> nat" where
  "moveLine line =
     (let filteredLine = map the (filter (\<lambda>cell. cell \<noteq> None) line);
          (newLine, score) = moveLine_loop filteredLine 0 [] 0
      in (fill_nulls newLine, score))"

text \<open>
  \<open>moveBoard\<close> returns \<open>{ newBoard, score, moved }\<close>, here a triple. Each of the four
  branches is a loop over \<open>[0..<GRID_SIZE]\<close> that threads \<open>newBoard\<close>, \<open>totalScore\<close> and
  \<open>moved\<close>; the two vertical branches write the resolved column cell by cell.
\<close>

definition write_column :: "GameBoard \<Rightarrow> nat \<Rightarrow> Cell list \<Rightarrow> GameBoard" where
  "write_column newBoard col newLine =
     fold (\<lambda>row nb. nb[row := (nb ! row)[col := newLine ! row]]) [0..<GRID_SIZE] newBoard"

definition moveBoard :: "GameBoard \<Rightarrow> Direction \<Rightarrow> GameBoard \<times> nat \<times> bool" where
  "moveBoard board direction =
     (let newBoard0 = replicate GRID_SIZE (replicate GRID_SIZE None) in
      case direction of
        Left \<Rightarrow>
          fold (\<lambda>row (newBoard, totalScore, moved).
                  let (newLine, score) = moveLine (board ! row)
                  in (newBoard[row := newLine], totalScore + score,
                      if \<not> arraysEqual newLine (board ! row) then True else moved))
               [0..<GRID_SIZE] (newBoard0, 0, False)
      | Right \<Rightarrow>
          fold (\<lambda>row (newBoard, totalScore, moved).
                  let reversedLine = rev (board ! row);
                      (newLine, score) = moveLine reversedLine;
                      newBoard' = newBoard[row := rev newLine]
                  in (newBoard', totalScore + score,
                      if \<not> arraysEqual (newBoard' ! row) (board ! row) then True else moved))
               [0..<GRID_SIZE] (newBoard0, 0, False)
      | Up \<Rightarrow>
          fold (\<lambda>col (newBoard, totalScore, moved).
                  let column = map (\<lambda>row. row ! col) board;
                      (newLine, score) = moveLine column
                  in (write_column newBoard col newLine, totalScore + score,
                      if \<not> arraysEqual newLine column then True else moved))
               [0..<GRID_SIZE] (newBoard0, 0, False)
      | Down \<Rightarrow>
          fold (\<lambda>col (newBoard, totalScore, moved).
                  let column = rev (map (\<lambda>row. row ! col) board);
                      (newLine, score) = moveLine column;
                      reversedNewLine = rev newLine
                  in (write_column newBoard col reversedNewLine, totalScore + score,
                      if \<not> arraysEqual reversedNewLine (map (\<lambda>row. row ! col) board)
                      then True else moved))
               [0..<GRID_SIZE] (newBoard0, 0, False))"

definition isGameWon :: "GameBoard \<Rightarrow> bool" where
  "isGameWon board \<longleftrightarrow>
     list_ex (\<lambda>row. list_ex (\<lambda>col. board ! row ! col = Some WINNING_NUMBER) [0..<GRID_SIZE])
             [0..<GRID_SIZE]"

definition isGameOver :: "GameBoard \<Rightarrow> bool" where
  "isGameOver board \<longleftrightarrow>
     \<not> list_ex (\<lambda>row. list_ex (\<lambda>col. board ! row ! col = None) [0..<GRID_SIZE]) [0..<GRID_SIZE]
     \<and> \<not> list_ex (\<lambda>row. list_ex (\<lambda>col.
              (col < GRID_SIZE - 1 \<and> board ! row ! (col + 1) = board ! row ! col)
            \<or> (row < GRID_SIZE - 1 \<and> board ! (row + 1) ! col = board ! row ! col))
            [0..<GRID_SIZE]) [0..<GRID_SIZE]"

subsection \<open>Notions used in the statements\<close>

text \<open>
  The line resolver as the specification words it, on the values of the non-empty cells
  in their order: a value equal to its successor combines with it into one cell of
  double the value and the scan resumes after the pair; any other value is kept and the
  scan resumes at its successor. \<open>merged_values\<close> lists the cells that the merges create.
\<close>

definition tile_values :: "Cell list \<Rightarrow> nat list" where
  "tile_values line = concat (map (\<lambda>cell. case cell of None \<Rightarrow> [] | Some v \<Rightarrow> [v]) line)"

fun merge_pairs :: "nat list \<Rightarrow> nat list" where
  "merge_pairs (x # y # rest) =
     (if x = y then (x * 2) # merge_pairs rest else x # merge_pairs (y # rest))"
| "merge_pairs xs = xs"

fun merged_values :: "nat list \<Rightarrow> nat list" where
  "merged_values (x # y # rest) =
     (if x = y then (x * 2) # merged_values rest else merged_values (y # rest))"
| "merged_values xs = []"

text \<open>The sum of the tile values of a line and of a board, and the number of tiles of a board.\<close>

definition cell_value :: "Cell \<Rightarrow> nat" where
  "cell_value cell = (case cell of None \<Rightarrow> 0 | Some v \<Rightarrow> v)"

definition line_sum :: "Cell list \<Rightarrow> nat" where
  "line_sum line = sum_list (map cell_value line)"

definition board_sum :: "GameBoard \<Rightarrow> nat" where
  "board_sum brd = sum_list (map line_sum brd)"

definition count_tiles :: "GameBoard \<Rightarrow> nat" where
  "count_tiles brd = sum_list (map (\<lambda>row. length (filter (\<lambda>cell. cell \<noteq> None) row)) brd)"

text \<open>
  The four lines that a move resolves, each with index 0 at the edge the tiles travel to:
  the rows for left, the reversed rows for right, the columns for up and the reversed
  columns for down.
\<close>

definition column :: "GameBoard \<Rightarrow> nat \<Rightarrow> Cell list" where
  "column brd col = map (\<lambda>row. row ! col) brd"

definition board_lines :: "GameBoard \<Rightarrow> Direction \<Rightarrow> Cell list list" where
  "board_lines brd direction =
     (case direction of
        Left \<Rightarrow> map (\<lambda>row. brd ! row) [0..<GRID_SIZE]
      | Right \<Rightarrow> map (\<lambda>row. rev (brd ! row)) [0..<GRID_SIZE]
      | Up \<Rightarrow> map (\<lambda>col. column brd col) [0..<GRID_SIZE]
      | Down \<Rightarrow> map (\<lambda>col. rev (column brd col)) [0..<GRID_SIZE])"

subsection \<open>Component state\<close>

text \<open>
  \<open>GameState\<close> is the snapshot type \<open>{ board, score }\<close> of the undo stack. The component
  holds \<open>board\<close> and \<open>score\<close> too, next to its other \<open>useState\<close> cells, so its state
  is the record extended by them. The cells that only drive presentation (best score,
  welcome and tutorial flags, \<open>isProcessingMove\<close>) are left out.

  Each handler is a closure over the values of the last render and queues its updates;
  React applies them before the next event is handled. A handler is therefore a function
  from the state it closes over to the state after its updates.
\<close>

record GameState =
  board :: GameBoard
  score :: nat

record Session = GameState +
  gameWon :: bool
  gameOver :: bool
  powerupMode :: PowerupMode
  selectedTiles :: "(nat \<times> nat) list"
  undoStack :: "GameState list"
  undoCount :: int
  swapCount :: int
  deleteCount :: int

text \<open>\<open>prev.slice(-n)\<close>: the last \<open>n\<close> elements, all of them when there are fewer.\<close>

definition slice_last :: "nat \<Rightarrow> 'a list \<Rightarrow> 'a list" where
  "slice_last n xs = drop (length xs - n) xs"

text \<open>The updater \<open>prev => [...prev.slice(-4), { board, score }]\<close> of the three handlers that save a snapshot.\<close>

definition push_snapshot :: "GameState list \<Rightarrow> GameState \<Rightarrow> GameState list" where
  "push_snapshot prev st = slice_last 4 prev @ [st]"

definition snapshot :: "Session \<Rightarrow> GameState" where
  "snapshot s = \<lparr>board = board s, score = score s\<rparr>"


subsection \<open>Event handlers\<close>

text \<open>
  A handler that spawns tiles takes the values of the random expressions of its calls of
  \<open>addRandomTile\<close>: \<open>r1\<close> and \<open>r3\<close> are cell indices, \<open>r2\<close> and \<open>r4\<close> value draws.
\<close>

definition processMove :: "Session \<Rightarrow> Direction \<Rightarrow> nat \<Rightarrow> real \<Rightarrow> Session \<times> bool" where
  "processMove s direction r1 r2 =
     (let s1 = s\<lparr>undoStack := push_snapshot (undoStack s) (snapshot s)\<rparr>;
          (newBoard, moveScore, moved) = moveBoard (board s) direction
      in if \<not> moved then (s1, False)
         else
           let boardWithNewTile = addRandomTile newBoard r1 r2;
               s2 = s1\<lparr>board := boardWithNewTile, score := score s1 + moveScore\<rparr>;
               s3 = (if moveScore \<ge> UNDO_UNLOCK_THRESHOLD \<and> undoCount s < MAX_UNDO_COUNT
                     then s2\<lparr>undoCount := min (undoCount s2 + 1) MAX_UNDO_COUNT\<rparr> else s2);
               s4 = (if moveScore \<ge> SWAP_UNLOCK_THRESHOLD \<and> swapCount s < MAX_SWAP_COUNT
                     then s3\<lparr>swapCount := min (swapCount s3 + 1) MAX_SWAP_COUNT\<rparr> else s3);
               s5 = (if moveScore \<ge> DELETE_UNLOCK_THRESHOLD \<and> deleteCount s < MAX_DELETE_COUNT
                     then s4\<lparr>deleteCount := min (deleteCount s4 + 1) MAX_DELETE_COUNT\<rparr> else s4);
               s6 = (if isGameWon boardWithNewTile \<and> \<not> gameWon s then s5\<lparr>gameWon := True\<rparr> else s5);
               s7 = (if isGameOver boardWithNewTile then s6\<lparr>gameOver := True\<rparr> else s6)
           in (s7, True))"


definition handleUndo :: "Session \<Rightarrow> Session" where
  "handleUndo s =
     (if undoCount s > 0 \<and> length (undoStack s) > 0 then
        let lastState = undoStack s ! (length (undoStack s) - 1)
        in s\<lparr>board := board lastState, score := score lastState,
              undoStack := take (length (undoStack s) - 1) (undoStack s),
              undoCount := undoCount s - 1,
              gameWon := False, gameOver := False,
              powerupMode := ModeNone, selectedTiles := []\<rparr>
      else s)"

definition swap_cells :: "GameBoard \<Rightarrow> nat \<Rightarrow> nat \<Rightarrow> nat \<Rightarrow> nat \<Rightarrow> GameBoard" where
  "swap_cells brd firstRow firstCol row col =
     map (\<lambda>(rIdx, r).
            map (\<lambda>(cIdx, cell).
                   if rIdx = firstRow \<and> cIdx = firstCol then brd ! row ! col
                   else if rIdx = row \<and> cIdx = col then brd ! firstRow ! firstCol
                   else cell)
                (enumerate 0 r))
         (enumerate 0 brd)"

definition handleTileClick ::
    "Session \<Rightarrow> nat \<Rightarrow> nat \<Rightarrow> nat \<Rightarrow> real \<Rightarrow> nat \<Rightarrow> real \<Rightarrow> Session" where
  "handleTileClick s row col r1 r2 r3 r4 =
     (if powerupMode s = ModeNone \<or> \<not> truthy (board s ! row ! col) then s
      else if powerupMode s = ModeSwap then
        (if length (selectedTiles s) = 0 then s\<lparr>selectedTiles := [(row, col)]\<rparr>
         else if length (selectedTiles s) = 1 then
           (let (firstRow, firstCol) = selectedTiles s ! 0
            in if firstRow = row \<and> firstCol = col then s\<lparr>selectedTiles := []\<rparr>
               else if truthy (board s ! row ! col) then
                 s\<lparr>undoStack := push_snapshot (undoStack s) (snapshot s),
                   board := swap_cells (board s) firstRow firstCol row col,
                   swapCount := swapCount s - 1,
                   powerupMode := ModeNone, selectedTiles := []\<rparr>
               else s)
         else s)
      else if powerupMode s = ModeDelete then
        (let targetValue = board s ! row ! col
         in if truthy targetValue \<and> deleteCount s > 0 then
              (let newBoard = map (\<lambda>r. map (\<lambda>cell. if cell = targetValue then None else cell) r) (board s);
                   hasAnyTiles = list_ex (\<lambda>row. list_ex (\<lambda>cell. cell \<noteq> None) row) newBoard;
                   finalBoard = (if \<not> hasAnyTiles
                                 then addRandomTile (addRandomTile newBoard r1 r2) r3 r4
                                 else newBoard)
               in s\<lparr>undoStack := push_snapshot (undoStack s) (snapshot s),
                     board := finalBoard,
                     deleteCount := deleteCount s - 1,
                     powerupMode := ModeNone, selectedTiles := [],
                     gameOver := (if isGameOver finalBoard then True else gameOver s)\<rparr>)
            else s)
      else s)"






subsection \<open>Example boards and sessions\<close>

text \<open>
  \<open>stuck_board\<close> is full and has no two equal neighbours; \<open>packed_board\<close> has one row
  that a move to the left cannot change; \<open>merge_board\<close> has a row whose merges are worth
  132 points. \<open>session_of\<close> is the state of a fresh session on a given board and score.
\<close>

definition stuck_board :: GameBoard where
  "stuck_board = [[Some 2, Some 4, Some 2, Some 4], [Some 4, Some 2, Some 4, Some 2],
                  [Some 2, Some 4, Some 2, Some 4], [Some 4, Some 2, Some 4, Some 2]]"

definition packed_board :: GameBoard where
  "packed_board = [[Some 2, Some 4, None, None], [None, None, None, None],
                   [None, None, None, None], [None, None, None, None]]"

definition merge_board :: GameBoard where
  "merge_board = [[Some 64, Some 64, Some 2, Some 2], [None, None, None, None],
                  [None, None, None, None], [None, None, None, None]]"

definition session_of :: "GameBoard \<Rightarrow> nat \<Rightarrow> Session" where
  "session_of brd sc =
     \<lparr>board = brd, score = sc, gameWon = False, gameOver = False, powerupMode = ModeNone,
      selectedTiles = [], undoStack = [], undoCount = 2, swapCount = 1, deleteCount = 0\<rparr>"

text \<open>
  \<open>swap_session\<close> is in swap mode with the tile at (0, 0) selected and no swap left;
  \<open>spent_session\<close> has no swap and no delete left and no powerup mode active;
  \<open>history5\<close> is a full undo history.
\<close>

definition swap_session :: Session where
  "swap_session = (session_of packed_board 0)\<lparr>powerupMode := ModeSwap, selectedTiles := [(0, 0)], swapCount := 0\<rparr>"




section \<open>Properties\<close>

subsection \<open>The line resolver\<close>

declare moveLine_loop.simps [simp del]
declare fill_nulls.simps [simp del]

lemma filteredLine_tile_values:
  "map the (filter (\<lambda>cell. cell \<noteq> None) line) = tile_values line"
  by (induction line) (auto simp: tile_values_def)

lemma moveLine_loop_refines:
  "moveLine_loop fl i nl sc =
     (nl @ map Some (merge_pairs (drop i fl)), sc + sum_list (merged_values (drop i fl)))"
proof (induction fl i nl sc rule: moveLine_loop.induct)
  case (1 fl i nl sc)
  show ?case
  proof (cases "i < length fl")
    case False
    then show ?thesis by (subst moveLine_loop.simps) simp
  next
    case inb: True
    then have d1: "drop i fl = fl ! i # drop (i + 1) fl"
      by (simp add: Cons_nth_drop_Suc)
    show ?thesis
    proof (cases "i < length fl - 1")
      case False
      with inb have "drop (i + 1) fl = []" by simp
      with 1 inb False d1 show ?thesis
        by (subst moveLine_loop.simps) simp
    next
      case True
      then have d2: "drop (i + 1) fl = fl ! (i + 1) # drop (i + 2) fl"
        using Cons_nth_drop_Suc [of "i + 1" fl] by simp
      show ?thesis
      proof (cases "fl ! i = fl ! (i + 1)")
        case eq: True
        with 1(1) [OF inb _ refl] inb True d1 d2 show ?thesis
          by (subst moveLine_loop.simps) (simp add: Let_def)
      next
        case neq: False
        with 1(2) [OF inb] inb True d1 d2 show ?thesis
          by (subst moveLine_loop.simps) simp
      qed
    qed
  qed
qed

lemma fill_nulls_eq: "fill_nulls nl = nl @ replicate (GRID_SIZE - length nl) None"
proof (induction nl rule: fill_nulls.induct)
  case (1 nl)
  show ?case
  proof (cases "length nl < GRID_SIZE")
    case True
    then have "GRID_SIZE - length nl = Suc (GRID_SIZE - length (nl @ [None]))" by simp
    with 1 True show ?thesis
      by (subst fill_nulls.simps) (simp add: replicate_app_Cons_same)
  next
    case False
    then show ?thesis by (subst fill_nulls.simps) simp
  qed
qed

lemma moveLine_eq:
  "moveLine line =
     (map Some (merge_pairs (tile_values line))
        @ replicate (GRID_SIZE - length (merge_pairs (tile_values line))) None,
      sum_list (merged_values (tile_values line)))"
  unfolding moveLine_def filteredLine_tile_values
  by (simp add: moveLine_loop_refines fill_nulls_eq Let_def)

lemma length_merge_pairs: "length (merge_pairs xs) \<le> length xs"
  by (induction xs rule: merge_pairs.induct) auto

lemma length_tile_values: "length (tile_values line) \<le> length line"
  by (induction line) (auto simp: tile_values_def split: option.splits)

lemma length_moveLine: "length line = GRID_SIZE \<Longrightarrow> length (fst (moveLine line)) = GRID_SIZE"
  using length_merge_pairs [of "tile_values line"] length_tile_values [of line]
  by (simp add: moveLine_eq)

lemma sum_merge_pairs: "sum_list (merge_pairs xs) = sum_list xs"
  by (induction xs rule: merge_pairs.induct) auto

lemma line_sum_tile_values: "line_sum line = sum_list (tile_values line)"
  by (induction line) (auto simp: line_sum_def cell_value_def tile_values_def split: option.splits)

lemma line_sum_Some_pad: "line_sum (map Some xs @ replicate n None) = sum_list xs"
  by (induction xs) (auto simp: line_sum_def cell_value_def)

lemma line_sum_moveLine: "line_sum (fst (moveLine line)) = line_sum line"
proof -
  have "line_sum (fst (moveLine line)) = sum_list (merge_pairs (tile_values line))"
    by (simp add: moveLine_eq line_sum_Some_pad)
  then show ?thesis
    by (simp add: sum_merge_pairs line_sum_tile_values)
qed

subsection \<open>The move engine\<close>

lemma arraysEqual_iff: "arraysEqual arr1 arr2 \<longleftrightarrow> arr1 = arr2"
  by (auto simp: arraysEqual_def list_all_iff list_eq_iff_nth_eq [of arr1 arr2])

lemma upt_GRID: "[0..<GRID_SIZE] = [0, 1, 2, 3]"
  by (simp add: GRID_SIZE_def upt_rec)

lemma replicate_GRID: "replicate GRID_SIZE x = [x, x, x, x]"
  by (simp add: GRID_SIZE_def numeral_eq_Suc)

lemma len4: "length xs = 4 \<Longrightarrow> xs = [xs ! 0, xs ! 1, xs ! 2, xs ! 3]"
  by (auto simp: list_eq_iff_nth_eq [of xs] nth_Cons' less_Suc_eq numeral_eq_Suc)

lemma moveBoard_Left:
  "moveBoard b Left =
     ([fst (moveLine (b ! 0)), fst (moveLine (b ! 1)), fst (moveLine (b ! 2)), fst (moveLine (b ! 3))],
      snd (moveLine (b ! 0)) + snd (moveLine (b ! 1)) + snd (moveLine (b ! 2)) + snd (moveLine (b ! 3)),
      fst (moveLine (b ! 0)) \<noteq> b ! 0 \<or> fst (moveLine (b ! 1)) \<noteq> b ! 1
        \<or> fst (moveLine (b ! 2)) \<noteq> b ! 2 \<or> fst (moveLine (b ! 3)) \<noteq> b ! 3)"
  by (auto simp: moveBoard_def upt_GRID replicate_GRID arraysEqual_iff split_beta Let_def numeral_eq_Suc)

lemma moveBoard_Right:
  "moveBoard b Right =
     ([rev (fst (moveLine (rev (b ! 0)))), rev (fst (moveLine (rev (b ! 1)))),
       rev (fst (moveLine (rev (b ! 2)))), rev (fst (moveLine (rev (b ! 3))))],
      snd (moveLine (rev (b ! 0))) + snd (moveLine (rev (b ! 1)))
        + snd (moveLine (rev (b ! 2))) + snd (moveLine (rev (b ! 3))),
      rev (fst (moveLine (rev (b ! 0)))) \<noteq> b ! 0 \<or> rev (fst (moveLine (rev (b ! 1)))) \<noteq> b ! 1
        \<or> rev (fst (moveLine (rev (b ! 2)))) \<noteq> b ! 2 \<or> rev (fst (moveLine (rev (b ! 3)))) \<noteq> b ! 3)"
  by (auto simp: moveBoard_def upt_GRID replicate_GRID arraysEqual_iff split_beta Let_def numeral_eq_Suc)

lemma write_column_explicit:
  "write_column [[a0, a1, a2, a3], [b0, b1, b2, b3], [c0, c1, c2, c3], [d0, d1, d2, d3]] col nl =
     [[a0, a1, a2, a3][col := nl ! 0], [b0, b1, b2, b3][col := nl ! 1],
      [c0, c1, c2, c3][col := nl ! 2], [d0, d1, d2, d3][col := nl ! 3]]"
  by (simp add: write_column_def upt_GRID numeral_eq_Suc)

lemma moveBoard_Up:
  "moveBoard b Up =
     (let n0 = fst (moveLine (column b 0)); n1 = fst (moveLine (column b 1));
          n2 = fst (moveLine (column b 2)); n3 = fst (moveLine (column b 3))
      in ([[n0 ! 0, n1 ! 0, n2 ! 0, n3 ! 0], [n0 ! 1, n1 ! 1, n2 ! 1, n3 ! 1],
           [n0 ! 2, n1 ! 2, n2 ! 2, n3 ! 2], [n0 ! 3, n1 ! 3, n2 ! 3, n3 ! 3]],
          snd (moveLine (column b 0)) + snd (moveLine (column b 1))
            + snd (moveLine (column b 2)) + snd (moveLine (column b 3)),
          n0 \<noteq> column b 0 \<or> n1 \<noteq> column b 1 \<or> n2 \<noteq> column b 2 \<or> n3 \<noteq> column b 3))"
  unfolding moveBoard_def column_def [symmetric]
  by (auto simp: upt_GRID replicate_GRID arraysEqual_iff split_beta Let_def write_column_explicit numeral_eq_Suc)

lemma moveBoard_Down:
  "moveBoard b Down =
     (let n0 = rev (fst (moveLine (rev (column b 0)))); n1 = rev (fst (moveLine (rev (column b 1))));
          n2 = rev (fst (moveLine (rev (column b 2)))); n3 = rev (fst (moveLine (rev (column b 3))))
      in ([[n0 ! 0, n1 ! 0, n2 ! 0, n3 ! 0], [n0 ! 1, n1 ! 1, n2 ! 1, n3 ! 1],
           [n0 ! 2, n1 ! 2, n2 ! 2, n3 ! 2], [n0 ! 3, n1 ! 3, n2 ! 3, n3 ! 3]],
          snd (moveLine (rev (column b 0))) + snd (moveLine (rev (column b 1)))
            + snd (moveLine (rev (column b 2))) + snd (moveLine (rev (column b 3))),
          n0 \<noteq> column b 0 \<or> n1 \<noteq> column b 1 \<or> n2 \<noteq> column b 2 \<or> n3 \<noteq> column b 3))"
  unfolding moveBoard_def column_def [symmetric]
  by (auto simp: upt_GRID replicate_GRID arraysEqual_iff split_beta Let_def write_column_explicit numeral_eq_Suc)


lemma valid_boardD:
  assumes "valid_board b"
  shows "b = [b ! 0, b ! 1, b ! 2, b ! 3]"
    and "length (b ! 0) = 4" and "length (b ! 1) = 4" and "length (b ! 2) = 4" and "length (b ! 3) = 4"
proof -
  from assms have l: "length b = 4" and r: "\<forall>row \<in> set b. length row = 4"
    by (simp_all add: valid_board_def GRID_SIZE_def list_all_iff)
  from l show "b = [b ! 0, b ! 1, b ! 2, b ! 3]" by (rule len4)
  from l r show "length (b ! 0) = 4" "length (b ! 1) = 4" "length (b ! 2) = 4" "length (b ! 3) = 4"
    by simp_all
qed

lemma line_sum4: "line_sum [a, b, c, d] = cell_value a + cell_value b + cell_value c + cell_value d"
  by (simp add: line_sum_def)

lemma line_sum_rev: "line_sum (rev xs) = line_sum xs"
  by (simp add: line_sum_def rev_map [symmetric])

lemma board_lines_Left: "set (board_lines b Left) = {b ! 0, b ! 1, b ! 2, b ! 3}"
  by (auto simp: board_lines_def upt_GRID)

lemma board_lines_Right: "set (board_lines b Right) = {rev (b ! 0), rev (b ! 1), rev (b ! 2), rev (b ! 3)}"
  by (auto simp: board_lines_def upt_GRID)

lemma board_lines_Up: "set (board_lines b Up) = {column b 0, column b 1, column b 2, column b 3}"
  by (auto simp: board_lines_def upt_GRID)

lemma board_lines_Down:
  "set (board_lines b Down) = {rev (column b 0), rev (column b 1), rev (column b 2), rev (column b 3)}"
  by (auto simp: board_lines_def upt_GRID)

lemma moved_iff:
  "snd (snd (moveBoard b d)) \<longleftrightarrow> (\<exists>line \<in> set (board_lines b d). fst (moveLine line) \<noteq> line)"
proof (cases d)
  case Left
  then show ?thesis by (simp add: moveBoard_Left board_lines_Left)
next
  case Right
  then show ?thesis by (simp add: moveBoard_Right board_lines_Right rev_swap)
next
  case Up
  then show ?thesis by (simp add: moveBoard_Up board_lines_Up Let_def)
next
  case Down
  then show ?thesis by (simp add: moveBoard_Down board_lines_Down Let_def rev_swap)
qed

lemma column4:
  assumes "valid_board b"
  shows "column b c = [b ! 0 ! c, b ! 1 ! c, b ! 2 ! c, b ! 3 ! c]"
proof -
  have "column b c = column [b ! 0, b ! 1, b ! 2, b ! 3] c"
    using valid_boardD(1) [OF assms] by simp
  then show ?thesis by (simp add: column_def)
qed

lemma board_from_columns:
  assumes "valid_board b"
  shows "[[column b 0 ! 0, column b 1 ! 0, column b 2 ! 0, column b 3 ! 0],
          [column b 0 ! 1, column b 1 ! 1, column b 2 ! 1, column b 3 ! 1],
          [column b 0 ! 2, column b 1 ! 2, column b 2 ! 2, column b 3 ! 2],
          [column b 0 ! 3, column b 1 ! 3, column b 2 ! 3, column b 3 ! 3]] = b"
proof -
  note d = valid_boardD [OF assms]
  have "[[b ! 0 ! 0, b ! 0 ! 1, b ! 0 ! 2, b ! 0 ! 3], [b ! 1 ! 0, b ! 1 ! 1, b ! 1 ! 2, b ! 1 ! 3],
         [b ! 2 ! 0, b ! 2 ! 1, b ! 2 ! 2, b ! 2 ! 3], [b ! 3 ! 0, b ! 3 ! 1, b ! 3 ! 2, b ! 3 ! 3]]
        = [b ! 0, b ! 1, b ! 2, b ! 3]"
    using len4 [OF d(2)] len4 [OF d(3)] len4 [OF d(4)] len4 [OF d(5)] by simp
  with d(1) show ?thesis by (simp add: column4 [OF assms])
qed

lemma unmoved_same:
  assumes "valid_board b" and "\<not> snd (snd (moveBoard b d))"
  shows "fst (moveBoard b d) = b"
proof (cases d)
  case Left
  with assms(2) have "[fst (moveLine (b ! 0)), fst (moveLine (b ! 1)), fst (moveLine (b ! 2)),
      fst (moveLine (b ! 3))] = [b ! 0, b ! 1, b ! 2, b ! 3]"
    by (simp add: moveBoard_Left)
  with valid_boardD(1) [OF assms(1)] Left show ?thesis by (simp add: moveBoard_Left)
next
  case Right
  with assms(2) have "[rev (fst (moveLine (rev (b ! 0)))), rev (fst (moveLine (rev (b ! 1)))),
      rev (fst (moveLine (rev (b ! 2)))), rev (fst (moveLine (rev (b ! 3))))] = [b ! 0, b ! 1, b ! 2, b ! 3]"
    by (simp add: moveBoard_Right)
  with valid_boardD(1) [OF assms(1)] Right show ?thesis by (simp add: moveBoard_Right)
next
  case Up
  with assms(2) have "fst (moveLine (column b 0)) = column b 0" "fst (moveLine (column b 1)) = column b 1"
     "fst (moveLine (column b 2)) = column b 2" "fst (moveLine (column b 3)) = column b 3"
    by (simp_all add: moveBoard_Up Let_def)
  with Up board_from_columns [OF assms(1)] show ?thesis by (simp add: moveBoard_Up Let_def)
next
  case Down
  with assms(2) have "rev (fst (moveLine (rev (column b 0)))) = column b 0"
     "rev (fst (moveLine (rev (column b 1)))) = column b 1"
     "rev (fst (moveLine (rev (column b 2)))) = column b 2"
     "rev (fst (moveLine (rev (column b 3)))) = column b 3"
    by (simp_all add: moveBoard_Down Let_def)
  with Down board_from_columns [OF assms(1)] show ?thesis by (simp add: moveBoard_Down Let_def)
qed

lemma line_sum_len4:
  "length xs = 4 \<Longrightarrow> line_sum xs = cell_value (xs ! 0) + cell_value (xs ! 1) + cell_value (xs ! 2) + cell_value (xs ! 3)"
  using len4 [of xs] line_sum4 [of "xs ! 0" "xs ! 1" "xs ! 2" "xs ! 3"] by simp

lemma board_sum_cols:
  assumes "length n0 = 4" "length n1 = 4" "length n2 = 4" "length n3 = 4"
  shows "board_sum [[n0 ! 0, n1 ! 0, n2 ! 0, n3 ! 0], [n0 ! 1, n1 ! 1, n2 ! 1, n3 ! 1],
                    [n0 ! 2, n1 ! 2, n2 ! 2, n3 ! 2], [n0 ! 3, n1 ! 3, n2 ! 3, n3 ! 3]]
         = line_sum n0 + line_sum n1 + line_sum n2 + line_sum n3"
  by (simp add: board_sum_def line_sum4 line_sum_len4 [OF assms(1)] line_sum_len4 [OF assms(2)]
      line_sum_len4 [OF assms(3)] line_sum_len4 [OF assms(4)])

lemma length_column: "valid_board b \<Longrightarrow> length (column b c) = 4"
  by (simp add: column_def valid_board_def GRID_SIZE_def)

lemma board_sum_rows: "valid_board b \<Longrightarrow> board_sum b = line_sum (b ! 0) + line_sum (b ! 1) + line_sum (b ! 2) + line_sum (b ! 3)"
proof -
  assume "valid_board b"
  then have "board_sum b = board_sum [b ! 0, b ! 1, b ! 2, b ! 3]"
    using valid_boardD(1) by simp
  then show ?thesis by (simp add: board_sum_def)
qed

lemma board_sum_columns:
  assumes "valid_board b"
  shows "board_sum b = line_sum (column b 0) + line_sum (column b 1) + line_sum (column b 2) + line_sum (column b 3)"
  using board_sum_cols [of "column b 0" "column b 1" "column b 2" "column b 3"]
    board_from_columns [OF assms] length_column [OF assms]
  by simp

lemma length_moveLine4: "length line = 4 \<Longrightarrow> length (fst (moveLine line)) = 4"
  using length_moveLine [of line] by (simp add: GRID_SIZE_def)

lemma board_sum_moveBoard:
  assumes "valid_board b"
  shows "board_sum (fst (moveBoard b d)) = board_sum b"
proof (cases d)
  case Left
  then show ?thesis
    by (simp add: moveBoard_Left board_sum_rows [OF assms] line_sum_moveLine) (simp add: board_sum_def line_sum_moveLine)
next
  case Right
  then show ?thesis
    by (simp add: moveBoard_Right board_sum_rows [OF assms]) (simp add: board_sum_def line_sum_moveLine line_sum_rev)
next
  case Up
  have "board_sum (fst (moveBoard b Up)) =
      line_sum (fst (moveLine (column b 0))) + line_sum (fst (moveLine (column b 1)))
      + line_sum (fst (moveLine (column b 2))) + line_sum (fst (moveLine (column b 3)))"
    unfolding moveBoard_Up Let_def fst_conv
    by (rule board_sum_cols) (simp_all add: length_moveLine4 length_column [OF assms])
  with Up show ?thesis
    by (simp add: line_sum_moveLine board_sum_columns [OF assms])
next
  case Down
  have "board_sum (fst (moveBoard b Down)) =
      line_sum (rev (fst (moveLine (rev (column b 0))))) + line_sum (rev (fst (moveLine (rev (column b 1)))))
      + line_sum (rev (fst (moveLine (rev (column b 2))))) + line_sum (rev (fst (moveLine (rev (column b 3)))))"
    unfolding moveBoard_Down Let_def fst_conv
    by (rule board_sum_cols) (simp_all add: length_moveLine4 length_column [OF assms])
  with Down show ?thesis
    by (simp add: line_sum_moveLine line_sum_rev board_sum_columns [OF assms])
qed

subsection \<open>The tile spawner\<close>

lemma concat_map_if:
  "concat (map (\<lambda>x. if P x then [f x] else []) xs) = map f (filter P xs)"
  by (induction xs) auto

lemma emptyCells_alt:
  "emptyCells b =
     concat (map (\<lambda>row. map (Pair row) (filter (\<lambda>col. b ! row ! col = None) [0..<GRID_SIZE])) [0..<GRID_SIZE])"
  unfolding emptyCells_def concat_map_if ..

lemma set_emptyCells:
  "set (emptyCells b) = {(row, col). row < GRID_SIZE \<and> col < GRID_SIZE \<and> b ! row ! col = None}"
  by (auto simp: emptyCells_alt)

lemma distinct_pairs:
  "distinct rows \<Longrightarrow> (\<And>row. distinct (g row)) \<Longrightarrow>
     distinct (concat (map (\<lambda>row. map (Pair row) (g row)) rows))"
  by (induction rows) (auto simp: distinct_map inj_on_def)

lemma distinct_emptyCells: "distinct (emptyCells b)"
  unfolding emptyCells_alt by (rule distinct_pairs) simp_all

lemma randomCell_in:
  assumes "idx < length (emptyCells b)"
  shows "randomCell b idx \<in> set (emptyCells b)"
  unfolding randomCell_def using assms by simp

lemma randomCell_eq_iff:
  assumes "idx < length (emptyCells b)" and "k < length (emptyCells b)"
  shows "randomCell b idx = emptyCells b ! k \<longleftrightarrow> idx = k"
  unfolding randomCell_def
  using assms distinct_emptyCells [of b] by (simp add: nth_eq_iff_index_eq)

lemma count_filter_update:
  "j < length row \<Longrightarrow> row ! j = None \<Longrightarrow>
     length (filter (\<lambda>cell. cell \<noteq> None) (row[j := Some v])) = Suc (length (filter (\<lambda>cell. cell \<noteq> None) row))"
proof (induction row arbitrary: j)
  case Nil
  then show ?case by simp
next
  case (Cons c row)
  then show ?case by (cases j) auto
qed

lemma count_tiles_update:
  "i < length b \<Longrightarrow> j < length (b ! i) \<Longrightarrow> b ! i ! j = None \<Longrightarrow>
     count_tiles (b[i := (b ! i)[j := Some v]]) = Suc (count_tiles b)"
proof (induction b arbitrary: i)
  case Nil
  then show ?case by simp
next
  case (Cons row b)
  show ?case
  proof (cases i)
    case 0
    with Cons.prems count_filter_update [of j row v] show ?thesis by (simp add: count_tiles_def)
  next
    case (Suc i')
    with Cons.prems Cons.IH [of i'] show ?thesis by (simp add: count_tiles_def)
  qed
qed

lemma valid_board_update:
  assumes "valid_board b"
  shows "valid_board (b[i := (b ! i)[j := x]])"
proof (cases "i < length b")
  case True
  with assms have "length ((b ! i)[j := x]) = GRID_SIZE"
    by (simp add: valid_board_def list_all_iff)
  with assms show ?thesis
    by (auto simp: valid_board_def list_all_iff dest!: set_update_subset_insert [THEN subsetD])
next
  case False
  then have "b[i := (b ! i)[j := x]] = b" by (simp add: list_update_beyond)
  with assms show ?thesis by simp
qed

lemma no_empty_iff: "emptyCells b = [] \<longleftrightarrow> (\<forall>row<GRID_SIZE. \<forall>col<GRID_SIZE. b ! row ! col \<noteq> None)"
proof -
  have "emptyCells b = [] \<longleftrightarrow> set (emptyCells b) = {}" by simp
  also have "\<dots> \<longleftrightarrow> (\<forall>row<GRID_SIZE. \<forall>col<GRID_SIZE. b ! row ! col \<noteq> None)"
    unfolding set_emptyCells by auto
  finally show ?thesis .
qed

subsection \<open>The claims about the pure helpers\<close>

text \<open>
  Claim C3. For every line of 4 cells, \<open>moveLine\<close> returns the values of the non-empty
  cells, in their order and merged left to right as \<open>merge_pairs\<close> describes (an equal
  pair becomes one cell of double the value and the scan resumes after the pair), followed
  by empty cells up to length 4; the score is the sum of the cells the merges created;
  every merge removes exactly one tile. In particular \<open>[2, 2, 2, null]\<close> resolves to
  \<open>[4, 2, null, null]\<close> with score 4.
\<close>

theorem moveLine_resolves:
  assumes "length line = GRID_SIZE"
  shows "moveLine line =
           (map Some (merge_pairs (tile_values line))
              @ replicate (GRID_SIZE - length (merge_pairs (tile_values line))) None,
            sum_list (merged_values (tile_values line)))
         \<and> length (fst (moveLine line)) = GRID_SIZE
         \<and> length (merge_pairs (tile_values line)) + length (merged_values (tile_values line))
             = length (tile_values line)
         \<and> moveLine [Some 2, Some 2, Some 2, None] = ([Some 4, Some 2, None, None], 4)"
proof -
  have ex: "moveLine [Some 2, Some 2, Some 2, None] = ([Some 4, Some 2, None, None], 4)"
    by (simp add: moveLine_eq tile_values_def GRID_SIZE_def numeral_eq_Suc)
  have cnt: "length (merge_pairs xs) + length (merged_values xs) = length xs" for xs
    by (induction xs rule: merge_pairs.induct) auto
  from moveLine_eq [of line] length_moveLine [OF assms] ex cnt show ?thesis by simp
qed

text \<open>The line \<open>[2, 2, 4, 4]\<close> merges both pairs and scores 12.\<close>

theorem moveLine_resolves_witness:
  "length [Some 2, Some 2, Some 4, Some (4::nat)] = GRID_SIZE
   \<and> moveLine [Some 2, Some 2, Some 4, Some 4] = ([Some 4, Some 8, None, None], 12)"
  using moveLine_resolves [of "[Some 2, Some 2, Some 4, Some 4]"]
  by (simp add: GRID_SIZE_def tile_values_def numeral_eq_Suc)

text \<open>
  Claim C4. For every 4 by 4 grid and every direction, the flag \<open>moved\<close> of
  \<open>moveBoard\<close> is true exactly when one of the four lines of that direction differs
  from its resolved line; when the flag is false the new board is the given board.
\<close>

theorem moveBoard_changed_iff:
  assumes "valid_board b"
  shows "(snd (snd (moveBoard b d)) \<longleftrightarrow>
            (\<exists>line \<in> set (board_lines b d). fst (moveLine line) \<noteq> line))
         \<and> (\<not> snd (snd (moveBoard b d)) \<longrightarrow> fst (moveBoard b d) = b)"
  using moved_iff [of b d] unmoved_same [OF assms, of d] by simp

lemma valid_stuck: "valid_board stuck_board"
  by (simp add: valid_board_def stuck_board_def GRID_SIZE_def)

text \<open>A move to the left leaves \<open>stuck_board\<close> as it is and reports no change.\<close>

theorem moveBoard_changed_iff_witness:
  "valid_board stuck_board \<and> \<not> snd (snd (moveBoard stuck_board Left))
   \<and> fst (moveBoard stuck_board Left) = stuck_board"
proof -
  have m: "\<not> snd (snd (moveBoard stuck_board Left))"
    by (simp add: moveBoard_Left stuck_board_def moveLine_eq tile_values_def GRID_SIZE_def)
  from moveBoard_changed_iff [OF valid_stuck, of Left] m valid_stuck show ?thesis by simp
qed

text \<open>
  Claim C10. The tile values of the line that \<open>moveLine\<close> returns add up to the tile
  values of its input line (of any length, so of 4 cells too), and on a 4 by 4 grid the
  board that \<open>moveBoard\<close> returns, before any tile is spawned, has the same total as the
  given board, in every direction.
\<close>

theorem move_preserves_sum:
  "line_sum (fst (moveLine line)) = line_sum line
   \<and> (valid_board b \<longrightarrow> board_sum (fst (moveBoard b d)) = board_sum b)"
  using line_sum_moveLine [of line] board_sum_moveBoard [of b d] by simp

lemma valid_merge: "valid_board merge_board"
  by (simp add: valid_board_def merge_board_def GRID_SIZE_def)

text \<open>Moving \<open>merge_board\<close> to the right keeps its total of 132.\<close>

theorem move_preserves_sum_witness:
  "valid_board merge_board \<and> board_sum (fst (moveBoard merge_board Right)) = 132"
proof -
  have "board_sum merge_board = 132"
    by (simp add: merge_board_def board_sum_def line_sum_def cell_value_def)
  with move_preserves_sum [of "[]" merge_board Right] valid_merge show ?thesis by simp
qed


text \<open>
  Claim C5 speaks of the tile spawner. Its first half holds of \<open>addRandomTile\<close> whatever
  the random expressions evaluate to: on a 4 by 4 grid with no empty cell the grid comes
  back unchanged; otherwise the cell picked was empty, it holds 2 or 4 afterwards, every
  other cell is unchanged and the grid has exactly one tile more. \<open>emptyCells\<close> lists
  every empty cell exactly once, so each index picks another empty cell. The second half,
  the probabilities of the two values and of each empty cell, is a statement about the
  distribution of \<open>Math.random()\<close> and about floating-point products, which this
  embedding does not hold; nothing is stated about it.
\<close>

lemma addRandomTile_spawns:
  assumes "valid_board b"
  shows "((\<forall>row<GRID_SIZE. \<forall>col<GRID_SIZE. b ! row ! col \<noteq> None) \<longrightarrow> addRandomTile b idx r2 = b)
       \<and> ((\<exists>row<GRID_SIZE. \<exists>col<GRID_SIZE. b ! row ! col = None) \<and> idx < length (emptyCells b) \<longrightarrow>
            (\<exists>row col v. randomCell b idx = (row, col) \<and> randomValue r2 = v
               \<and> row < GRID_SIZE \<and> col < GRID_SIZE \<and> b ! row ! col = None
               \<and> (v = 2 \<or> v = 4) \<and> (v = 2 \<longleftrightarrow> r2 < 9 / 10)
               \<and> addRandomTile b idx r2 ! row ! col = Some v
               \<and> (\<forall>row'<GRID_SIZE. \<forall>col'<GRID_SIZE. (row', col') \<noteq> (row, col) \<longrightarrow>
                     addRandomTile b idx r2 ! row' ! col' = b ! row' ! col')
               \<and> valid_board (addRandomTile b idx r2)
               \<and> count_tiles (addRandomTile b idx r2) = count_tiles b + 1))
       \<and> set (emptyCells b) = {(row, col). row < GRID_SIZE \<and> col < GRID_SIZE \<and> b ! row ! col = None}
       \<and> distinct (emptyCells b)
       \<and> (\<forall>k<length (emptyCells b). idx < length (emptyCells b) \<longrightarrow>
             (randomCell b idx = emptyCells b ! k \<longleftrightarrow> idx = k))"
proof -
  have full: "addRandomTile b idx r2 = b" if "\<forall>row<GRID_SIZE. \<forall>col<GRID_SIZE. b ! row ! col \<noteq> None"
    using that no_empty_iff [of b] by (simp add: addRandomTile_def)
  have spawn: "\<exists>row col v. randomCell b idx = (row, col) \<and> randomValue r2 = v
               \<and> row < GRID_SIZE \<and> col < GRID_SIZE \<and> b ! row ! col = None
               \<and> (v = 2 \<or> v = 4) \<and> (v = 2 \<longleftrightarrow> r2 < 9 / 10)
               \<and> addRandomTile b idx r2 ! row ! col = Some v
               \<and> (\<forall>row'<GRID_SIZE. \<forall>col'<GRID_SIZE. (row', col') \<noteq> (row, col) \<longrightarrow>
                     addRandomTile b idx r2 ! row' ! col' = b ! row' ! col')
               \<and> valid_board (addRandomTile b idx r2)
               \<and> count_tiles (addRandomTile b idx r2) = count_tiles b + 1"
    if "(\<exists>row<GRID_SIZE. \<exists>col<GRID_SIZE. b ! row ! col = None) \<and> idx < length (emptyCells b)"
  proof -
    from that have lt: "idx < length (emptyCells b)" by simp
    then have ne: "emptyCells b \<noteq> []" by (cases "emptyCells b") simp_all
    obtain row col where rc: "randomCell b idx = (row, col)" by (cases "randomCell b idx")
    from randomCell_in [OF lt] rc
    have inb: "row < GRID_SIZE" "col < GRID_SIZE" and emp: "b ! row ! col = None"
      by (simp_all add: set_emptyCells)
    from assms inb have lens: "row < length b" "col < length (b ! row)"
      by (simp_all add: valid_board_def list_all_iff)
    from ne rc have res: "addRandomTile b idx r2 = b[row := (b ! row)[col := Some (randomValue r2)]]"
      by (simp add: addRandomTile_def)
    have v: "randomValue r2 = 2 \<or> randomValue r2 = 4" "randomValue r2 = 2 \<longleftrightarrow> r2 < 9 / 10"
      by (simp_all add: randomValue_def)
    have at: "addRandomTile b idx r2 ! row ! col = Some (randomValue r2)"
      using lens by (simp add: res)
    have others: "\<forall>row'<GRID_SIZE. \<forall>col'<GRID_SIZE. (row', col') \<noteq> (row, col) \<longrightarrow>
                     addRandomTile b idx r2 ! row' ! col' = b ! row' ! col'"
      using lens by (auto simp: res nth_list_update)
    have vb: "valid_board (addRandomTile b idx r2)"
      unfolding res by (rule valid_board_update [OF assms])
    have ct: "count_tiles (addRandomTile b idx r2) = count_tiles b + 1"
      unfolding res using count_tiles_update [OF lens emp] by simp
    from rc inb emp v at others vb ct show ?thesis by blast
  qed
  have pick: "\<forall>k<length (emptyCells b). idx < length (emptyCells b) \<longrightarrow>
             (randomCell b idx = emptyCells b ! k \<longleftrightarrow> idx = k)"
    using randomCell_eq_iff [of idx b] by blast
  from full spawn pick set_emptyCells [of b] distinct_emptyCells [of b] show ?thesis
    by blast
qed

text \<open>
  The full \<open>stuck_board\<close> comes back unchanged; \<open>packed_board\<close>, with two tiles and
  fourteen empty cells, comes back with three.
\<close>

lemma addRandomTile_examples:
  "addRandomTile stuck_board 7 (19 / 20) = stuck_board
   \<and> length (emptyCells packed_board) = 14
   \<and> addRandomTile packed_board 7 (19 / 20) =
        [[Some 2, Some 4, None, None], [None, None, None, None],
         [None, Some 4, None, None], [None, None, None, None]]"
  by (simp add: addRandomTile_def randomCell_def randomValue_def emptyCells_def stuck_board_def
      packed_board_def upt_GRID)

subsection \<open>The session controller\<close>

lemma processMove_moved: "snd (processMove s d r1 r2) = snd (snd (moveBoard (board s) d))"
  by (simp add: processMove_def Let_def split_beta)

lemma processMove_unmoved:
  "\<not> snd (snd (moveBoard (board s) d)) \<Longrightarrow>
     processMove s d r1 r2 = (s\<lparr>undoStack := push_snapshot (undoStack s) (snapshot s)\<rparr>, False)"
  by (simp add: processMove_def Let_def split_beta)

lemma processMove_undoStack:
  "undoStack (fst (processMove s d r1 r2)) = push_snapshot (undoStack s) (snapshot s)"
  by (simp add: processMove_def Let_def split_beta)

lemma processMove_score:
  "snd (processMove s d r1 r2) \<Longrightarrow>
     score (fst (processMove s d r1 r2)) = score s + fst (snd (moveBoard (board s) d))"
  by (simp add: processMove_def Let_def split_beta split: if_splits)

lemma processMove_undoCount:
  "snd (processMove s d r1 r2) \<Longrightarrow>
     undoCount (fst (processMove s d r1 r2)) =
       (if UNDO_UNLOCK_THRESHOLD \<le> fst (snd (moveBoard (board s) d)) \<and> undoCount s < MAX_UNDO_COUNT
        then min (undoCount s + 1) MAX_UNDO_COUNT else undoCount s)"
  by (simp add: processMove_def Let_def split_beta split: if_splits)

lemma processMove_swapCount:
  "snd (processMove s d r1 r2) \<Longrightarrow>
     swapCount (fst (processMove s d r1 r2)) =
       (if SWAP_UNLOCK_THRESHOLD \<le> fst (snd (moveBoard (board s) d)) \<and> swapCount s < MAX_SWAP_COUNT
        then min (swapCount s + 1) MAX_SWAP_COUNT else swapCount s)"
  by (simp add: processMove_def Let_def split_beta split: if_splits)

lemma processMove_deleteCount:
  "snd (processMove s d r1 r2) \<Longrightarrow>
     deleteCount (fst (processMove s d r1 r2)) =
       (if DELETE_UNLOCK_THRESHOLD \<le> fst (snd (moveBoard (board s) d)) \<and> deleteCount s < MAX_DELETE_COUNT
        then min (deleteCount s + 1) MAX_DELETE_COUNT else deleteCount s)"
  by (simp add: processMove_def Let_def split_beta split: if_splits)



lemma moveBoard_packed_Left: "moveBoard packed_board Left = (packed_board, 0, False)"
  by (simp add: moveBoard_Left packed_board_def moveLine_eq tile_values_def GRID_SIZE_def numeral_eq_Suc)

lemma moveBoard_merge_Left:
  "moveBoard merge_board Left =
     ([[Some 128, Some 4, None, None], [None, None, None, None],
       [None, None, None, None], [None, None, None, None]], 132, True)"
  by (simp add: moveBoard_Left merge_board_def moveLine_eq tile_values_def GRID_SIZE_def numeral_eq_Suc)

text \<open>
  Claim C1 asks that a move the engine reports as unchanged leaves grid, score and undo
  history as they were. \<open>processMove\<close> queues the snapshot before it looks at \<open>moved\<close>
  and returns early without taking it back (\<open>processMove_unmoved\<close>). On \<open>packed_board\<close> a
  move to the left changes nothing, grid and score stay, but the empty history holds one
  snapshot afterwards, and an undo then spends one of the two uses to restore the very
  same state.
\<close>

theorem processMove_unchanged_keeps_push:
  "snd (processMove (session_of packed_board 0) Left 0 0) = False
   \<and> board (fst (processMove (session_of packed_board 0) Left 0 0)) = packed_board
   \<and> score (fst (processMove (session_of packed_board 0) Left 0 0)) = 0
   \<and> undoStack (session_of packed_board 0) = []
   \<and> undoStack (fst (processMove (session_of packed_board 0) Left 0 0))
       = [\<lparr>board = packed_board, score = 0\<rparr>]
   \<and> undoCount (handleUndo (fst (processMove (session_of packed_board 0) Left 0 0))) = 1"
  by (simp add: processMove_def moveBoard_packed_Left session_of_def push_snapshot_def
      slice_last_def snapshot_def handleUndo_def)















text \<open>
  Claim C6. After a move that changed the board, with the counters within their maxima
  before it, the score has grown by the gain of this move, and each counter depends on
  that gain alone: a gain of at least 128 adds one undo up to 3, a gain of at least 256
  one swap up to 2, a gain of at least 512 one delete up to 1; a smaller gain leaves the
  counter as it was. The cumulative score plays no part.
\<close>

theorem processMove_unlocks:
  assumes "snd (processMove s d r1 r2)"
    and "undoCount s \<le> 3" and "swapCount s \<le> 2" and "deleteCount s \<le> 1"
  shows "score (fst (processMove s d r1 r2)) = score s + fst (snd (moveBoard (board s) d))
       \<and> undoCount (fst (processMove s d r1 r2)) =
           (if 128 \<le> fst (snd (moveBoard (board s) d)) then min (undoCount s + 1) 3 else undoCount s)
       \<and> swapCount (fst (processMove s d r1 r2)) =
           (if 256 \<le> fst (snd (moveBoard (board s) d)) then min (swapCount s + 1) 2 else swapCount s)
       \<and> deleteCount (fst (processMove s d r1 r2)) =
           (if 512 \<le> fst (snd (moveBoard (board s) d)) then min (deleteCount s + 1) 1 else deleteCount s)"
  using assms processMove_score [OF assms(1)] processMove_undoCount [OF assms(1)]
    processMove_swapCount [OF assms(1)] processMove_deleteCount [OF assms(1)]
  by (simp add: UNDO_UNLOCK_THRESHOLD_def SWAP_UNLOCK_THRESHOLD_def DELETE_UNLOCK_THRESHOLD_def
      MAX_UNDO_COUNT_def MAX_SWAP_COUNT_def MAX_DELETE_COUNT_def)

text \<open>
  With 1000 points already and a move worth 132, the undo counter goes from 2 to 3 and
  the swap and delete counters stay.
\<close>

theorem processMove_unlocks_witness:
  "snd (processMove (session_of merge_board 1000) Left 0 0)
   \<and> undoCount (session_of merge_board 1000) \<le> 3
   \<and> swapCount (session_of merge_board 1000) \<le> 2
   \<and> deleteCount (session_of merge_board 1000) \<le> 1
   \<and> score (fst (processMove (session_of merge_board 1000) Left 0 0)) = 1132
   \<and> undoCount (fst (processMove (session_of merge_board 1000) Left 0 0)) = 3
   \<and> swapCount (fst (processMove (session_of merge_board 1000) Left 0 0)) = 1
   \<and> deleteCount (fst (processMove (session_of merge_board 1000) Left 0 0)) = 0"
proof -
  have m: "snd (processMove (session_of merge_board 1000) Left 0 0)"
    by (simp add: processMove_moved session_of_def moveBoard_merge_Left)
  have c: "undoCount (session_of merge_board 1000) \<le> 3" "swapCount (session_of merge_board 1000) \<le> 2"
    "deleteCount (session_of merge_board 1000) \<le> 1"
    by (simp_all add: session_of_def)
  have g: "moveBoard (board (session_of merge_board 1000)) Left =
      ([[Some 128, Some 4, None, None], [None, None, None, None],
        [None, None, None, None], [None, None, None, None]], 132, True)"
    by (simp add: session_of_def moveBoard_merge_Left)
  from processMove_unlocks [OF m c] m c show ?thesis
    unfolding g by (simp add: session_of_def)
qed

lemma last_push_snapshot: "push_snapshot h x ! (length (push_snapshot h x) - Suc 0) = x"
  by (simp add: push_snapshot_def nth_append)

text \<open>
  Claim C7. With an undo left, a move that changed the board followed by \<open>handleUndo\<close>
  gives back the grid and the score held before the move, and the undo counter is one
  less than it was after the move. With no undo left or an empty history \<open>handleUndo\<close>
  changes nothing.
\<close>

theorem undo_round_trip:
  "(0 < undoCount s \<and> snd (processMove s d r1 r2) \<longrightarrow>
      board (handleUndo (fst (processMove s d r1 r2))) = board s
      \<and> score (handleUndo (fst (processMove s d r1 r2))) = score s
      \<and> undoCount (handleUndo (fst (processMove s d r1 r2)))
          = undoCount (fst (processMove s d r1 r2)) - 1)
   \<and> (undoCount s = 0 \<or> undoStack s = [] \<longrightarrow> handleUndo s = s)"
proof -
  let ?s1 = "fst (processMove s d r1 r2)"
  have noop: "handleUndo s = s" if "undoCount s = 0 \<or> undoStack s = []"
    using that by (auto simp: handleUndo_def)
  have trip: "board (handleUndo ?s1) = board s \<and> score (handleUndo ?s1) = score s
      \<and> undoCount (handleUndo ?s1) = undoCount ?s1 - 1"
    if pos: "0 < undoCount s" and mv: "snd (processMove s d r1 r2)"
  proof -
    have "undoCount s \<le> undoCount ?s1"
      by (simp add: processMove_undoCount [OF mv] MAX_UNDO_COUNT_def)
    with pos have p1: "0 < undoCount ?s1" by simp
    have ne: "0 < length (undoStack ?s1)"
      by (simp add: processMove_undoStack push_snapshot_def)
    have lst: "undoStack ?s1 ! (length (undoStack ?s1) - Suc 0) = snapshot s"
      unfolding processMove_undoStack by (rule last_push_snapshot)
    from p1 ne have "handleUndo ?s1 =
        ?s1\<lparr>board := board (snapshot s), score := score (snapshot s),
            undoStack := take (length (undoStack ?s1) - 1) (undoStack ?s1),
            undoCount := undoCount ?s1 - 1, gameWon := False, gameOver := False,
            powerupMode := ModeNone, selectedTiles := []\<rparr>"
      by (simp add: handleUndo_def Let_def lst)
    then show ?thesis by (simp add: snapshot_def)
  qed
  from noop trip show ?thesis by blast
qed

text \<open>A move to the left on \<open>merge_board\<close> and its undo; an undo on a fresh session.\<close>

theorem undo_round_trip_witness:
  "0 < undoCount (session_of merge_board 1000)
   \<and> snd (processMove (session_of merge_board 1000) Left 0 0)
   \<and> board (handleUndo (fst (processMove (session_of merge_board 1000) Left 0 0))) = merge_board
   \<and> score (handleUndo (fst (processMove (session_of merge_board 1000) Left 0 0))) = 1000
   \<and> undoCount (handleUndo (fst (processMove (session_of merge_board 1000) Left 0 0))) = 2
   \<and> undoStack (session_of merge_board 1000) = []
   \<and> handleUndo (session_of merge_board 1000) = session_of merge_board 1000"
proof -
  have m: "snd (processMove (session_of merge_board 1000) Left 0 0)"
    by (simp add: processMove_moved session_of_def moveBoard_merge_Left)
  have p: "0 < undoCount (session_of merge_board 1000)"
    and e: "undoStack (session_of merge_board 1000) = []"
    by (simp_all add: session_of_def)
  have u: "undoCount (fst (processMove (session_of merge_board 1000) Left 0 0)) = 3"
    unfolding processMove_undoCount [OF m]
    by (simp add: session_of_def moveBoard_merge_Left UNDO_UNLOCK_THRESHOLD_def MAX_UNDO_COUNT_def)
  have b: "board (session_of merge_board 1000) = merge_board"
    "score (session_of merge_board 1000) = 1000"
    by (simp_all add: session_of_def)
  from undo_round_trip [of "session_of merge_board 1000" Left 0 0] m p e u b
  show ?thesis by simp
qed






text \<open>
  Claim C9. A click on a coordinate of the grid whose cell is empty returns the state
  unchanged, whatever the powerup mode and the selection are.
\<close>

theorem handleTileClick_empty_cell:
  assumes "row < GRID_SIZE" and "col < GRID_SIZE" and "board s ! row ! col = None"
  shows "handleTileClick s row col r1 r2 r3 r4 = s"
  using assms(3) by (simp add: handleTileClick_def truthy_def)

text \<open>In swap mode with a tile selected, a click on the empty cell (0, 2) does nothing.\<close>

theorem handleTileClick_empty_cell_witness:
  "(0::nat) < GRID_SIZE \<and> (2::nat) < GRID_SIZE \<and> board swap_session ! 0 ! 2 = None
   \<and> powerupMode swap_session = ModeSwap \<and> selectedTiles swap_session = [(0, 0)]
   \<and> handleTileClick swap_session 0 2 0 0 0 0 = swap_session"
proof -
  have g: "(0::nat) < GRID_SIZE" "(2::nat) < GRID_SIZE" by (simp_all add: GRID_SIZE_def)
  have n: "board swap_session ! 0 ! 2 = None"
    by (simp add: swap_session_def session_of_def packed_board_def)
  have m: "powerupMode swap_session = ModeSwap" "selectedTiles swap_session = [(0, 0)]"
    by (simp_all add: swap_session_def)
  from handleTileClick_empty_cell [OF g n, of 0 0 0 0] g n m show ?thesis by simp
qed

end
